theory Spec2Isabelle
  imports Main "HOL-Library.Sublist"
begin

section \<open>JavaScript values\<close>

text \<open>
  Request bodies are parsed JSON and document paths hold whatever the controller assigns
  to them, so both are modelled over one type of JavaScript values.  A number is kept as
  its rendering \<open>String(n)\<close> (\<open>7\<close>, \<open>-1.5\<close>, \<open>1e+21\<close>, \<open>NaN\<close>), which determines
  it up to the sign of zero; \<open>JUndefined\<close> is what reading an absent property yields.
\<close>

datatype jsval =
    JUndefined
  | JNull
  | JBool bool
  | JNum string
  | JStr string
  | JArr "jsval list"
  | JObj "(string \<times> jsval) list"

text \<open>Truthiness, as used by \<open>&&\<close>, \<open>||\<close>, \<open>?:\<close> and \<open>if\<close>.\<close>

fun truthy :: "jsval \<Rightarrow> bool" where
  "truthy JUndefined = False"
| "truthy JNull = False"
| "truthy (JBool b) = b"
| "truthy (JNum n) = (n \<noteq> ''0'' \<and> n \<noteq> ''NaN'')"
| "truthy (JStr s) = (s \<noteq> [])"
| "truthy (JArr xs) = True"
| "truthy (JObj kvs) = True"

text \<open>\<open>a || b\<close>\<close>

definition js_or :: "jsval \<Rightarrow> jsval \<Rightarrow> jsval" where
  "js_or a b = (if truthy a then a else b)"

text \<open>\<open>a !== undefined ? a : b\<close>\<close>

definition defined_or :: "jsval \<Rightarrow> jsval \<Rightarrow> jsval" where
  "defined_or a b = (if a \<noteq> JUndefined then a else b)"

text \<open>Property read \<open>o.k\<close> on an object given by its own properties.\<close>

definition js_get :: "(string \<times> jsval) list \<Rightarrow> string \<Rightarrow> jsval" where
  "js_get kvs k = (case map_of kvs k of None \<Rightarrow> JUndefined | Some v \<Rightarrow> v)"

text \<open>
  SameValueZero, the comparison of \<open>Array.prototype.includes\<close>: primitives compare by
  value, arrays and objects by reference, and a value parsed from a request is never the
  same reference as a member of a constant table.
\<close>

fun same_value_zero :: "jsval \<Rightarrow> jsval \<Rightarrow> bool" where
  "same_value_zero (JArr xs) b = False"
| "same_value_zero (JObj kvs) b = False"
| "same_value_zero a b = (a = b)"

definition js_includes :: "jsval list \<Rightarrow> jsval \<Rightarrow> bool" where
  "js_includes xs v = list_ex (\<lambda>x. same_value_zero x v) xs"

text \<open>\<open>xs.join(sep)\<close> on already converted elements.\<close>

fun join :: "string \<Rightarrow> string list \<Rightarrow> string" where
  "join sep [] = []"
| "join sep [x] = x"
| "join sep (x # y # ys) = x @ sep @ join sep (y # ys)"

text \<open>
  String conversion: \<open>js_toString\<close> is \<open>String(v)\<close>; \<open>js_element\<close> is the conversion
  \<open>join\<close> applies to an array element, where \<open>undefined\<close> and \<open>null\<close> become the
  empty string.
\<close>

fun js_toString :: "jsval \<Rightarrow> string"
  and js_element :: "jsval \<Rightarrow> string" where
  "js_toString JUndefined = ''undefined''"
| "js_toString JNull = ''null''"
| "js_toString (JBool b) = (if b then ''true'' else ''false'')"
| "js_toString (JNum n) = n"
| "js_toString (JStr s) = s"
| "js_toString (JArr xs) = join '','' (map js_element xs)"
| "js_toString (JObj kvs) = ''[object Object]''"
| "js_element JUndefined = []"
| "js_element JNull = []"
| "js_element (JBool b) = js_toString (JBool b)"
| "js_element (JNum n) = js_toString (JNum n)"
| "js_element (JStr s) = js_toString (JStr s)"
| "js_element (JArr xs) = js_toString (JArr xs)"
| "js_element (JObj kvs) = js_toString (JObj kvs)"

definition js_join :: "string \<Rightarrow> jsval list \<Rightarrow> string" where
  "js_join sep xs = join sep (map js_element xs)"

text \<open>
  \<open>v > 0\<close>.  A number is above zero when its rendering is neither \<open>0\<close> nor \<open>NaN\<close>
  and carries no minus sign.  A string operand is converted by the language's string to
  number conversion, which is not spelled out here: \<open>pos\<close> tells whether the converted
  string is above zero.  An array operand goes through its string conversion; an object
  converts to NaN.
\<close>

definition gt_zero :: "(string \<Rightarrow> bool) \<Rightarrow> jsval \<Rightarrow> bool" where
  "gt_zero pos v = (case v of
       JNum n \<Rightarrow> n \<noteq> ''0'' \<and> n \<noteq> ''NaN'' \<and> \<not> prefix ''-'' n
     | JBool b \<Rightarrow> b
     | JStr s \<Rightarrow> pos s
     | JArr xs \<Rightarrow> pos (js_toString (JArr xs))
     | _ \<Rightarrow> False)"

text \<open>\<open>v.length > 0\<close> for a truthy \<open>v\<close>: strings and arrays have their length, an
  object has the property it was given, a number or a boolean has none.\<close>

definition length_gt_zero :: "(string \<Rightarrow> bool) \<Rightarrow> jsval \<Rightarrow> bool" where
  "length_gt_zero pos v = (case v of
       JStr s \<Rightarrow> s \<noteq> []
     | JArr xs \<Rightarrow> xs \<noteq> []
     | JObj kvs \<Rightarrow> gt_zero pos (js_get kvs ''length'')
     | _ \<Rightarrow> False)"

definition isArray :: "jsval \<Rightarrow> bool" where
  "isArray v = (case v of JArr xs \<Rightarrow> True | _ \<Rightarrow> False)"

definition elements :: "jsval \<Rightarrow> jsval list" where
  "elements v = (case v of JArr xs \<Rightarrow> xs | _ \<Rightarrow> [])"

section \<open>Accounts and the store\<close>

text \<open>
  A user document.  \<open>uid\<close> is the document's \<open>_id\<close>; \<open>password\<close> is the stored hash,
  which \<open>authUser\<close> reads from the document that a plain \<open>findOne\<close> returns; \<open>others\<close>
  holds the paths the controller never names (ban flag, follow lists).  Paths hold the
  value assigned to them; casting by the schema is outside the model.
\<close>

record user =
  uid :: string
  fullName :: jsval
  email :: jsval
  password :: string
  username :: jsval
  profileImage :: jsval
  roles :: jsval
  others :: "(string \<times> jsval) list"

datatype error =
    Error string
  | DuplicateEmail
  | SelfFollow
  | AlreadyFollowing
  | NotFound

text \<open>
  The persistence layer as a request finds it: the user collection in natural order, the
  follow edges (follower id, following id) owned by the social graph service, and
  \<open>outage\<close>, which is \<open>Some e\<close> while the layer cannot be reached, every query then
  being rejected with \<open>e\<close>.
\<close>

record store =
  users :: "user list"
  follows :: "(string \<times> string) list"
  outage :: "error option"

datatype expiry = Epoch | AfterDays nat

record cookie =
  cname :: string
  cvalue :: string
  httpOnly :: bool
  expires :: expiry
  secure :: bool
  sameSite :: string

text \<open>
  What a handler leaves behind.  \<open>Json n v\<close> is \<open>res.status(n).json(v)\<close>.
  \<open>Thrown n e\<close> is an error thrown out of the handler (and forwarded by the async
  wrapper) while the response status is \<open>n\<close>; the status of a fresh response is 200.
  A handler ends in one of the two: nothing in the controller ends the process.
\<close>

datatype reply = Json nat jsval | Thrown nat error

record result =
  db :: store
  cookies :: "cookie list"
  reply :: reply

text \<open>
  The collaborators of the controller that are not part of it: the role enumeration
  object, the hashing and signing primitives, the socket server's \<open>emit\<close> (\<open>None\<close>: it
  returns; \<open>Some e\<close>: it throws \<open>e\<close>), the environment flag, the id generator, and the
  language's verdict on whether a string converts to a number above zero.
\<close>

record env =
  UserRole :: "(string \<times> jsval) list"
  bcrypt_hash :: "jsval \<Rightarrow> string"
  bcrypt_compare :: "jsval \<Rightarrow> string \<Rightarrow> bool"
  jwt_sign :: "string \<Rightarrow> string"
  io_emit :: "string \<Rightarrow> jsval \<Rightarrow> error option"
  development :: bool
  new_id :: "user list \<Rightarrow> string"
  string_gt_zero :: "string \<Rightarrow> bool"

subsection \<open>Queries and writes of the user model\<close>

text \<open>An awaited query: rejected during an outage, answered from the collection otherwise.\<close>

definition query :: "store \<Rightarrow> 'a \<Rightarrow> error + 'a" where
  "query st answer = (case outage st of Some e \<Rightarrow> Inl e | None \<Rightarrow> Inr answer)"

text \<open>\<open>User.findOne({ email })\<close>: the first document whose email equals the query value.\<close>

definition findOne :: "store \<Rightarrow> jsval \<Rightarrow> error + user option" where
  "findOne st e = query st (find (\<lambda>u. email u = e) (users st))"

definition findById :: "store \<Rightarrow> string \<Rightarrow> error + user option" where
  "findById st i = query st (find (\<lambda>u. uid u = i) (users st))"

text \<open>\<open>User.find({})\<close>\<close>

definition find_all :: "store \<Rightarrow> error + user list" where
  "find_all st = query st (users st)"

text \<open>\<open>doc.save()\<close> of a loaded document: the stored document with that id is replaced.\<close>

fun replace_doc :: "user \<Rightarrow> user list \<Rightarrow> user list" where
  "replace_doc u [] = []"
| "replace_doc u (v # vs) = (if uid v = uid u then u # vs else v # replace_doc u vs)"

definition save :: "store \<Rightarrow> user \<Rightarrow> error + store" where
  "save st u = query st (st\<lparr>users := replace_doc u (users st)\<rparr>)"

text \<open>\<open>doc.remove()\<close>\<close>

fun remove_doc :: "string \<Rightarrow> user list \<Rightarrow> user list" where
  "remove_doc i [] = []"
| "remove_doc i (v # vs) = (if uid v = i then vs else v # remove_doc i vs)"

definition remove :: "store \<Rightarrow> user \<Rightarrow> error + store" where
  "remove st u = query st (st\<lparr>users := remove_doc (uid u) (users st)\<rparr>)"

text \<open>Serialisation of a document handed to \<open>res.json\<close>: every path of the document.
  The controller puts no projection on its queries and removes no path before answering.\<close>

definition user_json :: "user \<Rightarrow> jsval" where
  "user_json u = JObj ([(''_id'', JStr (uid u)), (''fullName'', fullName u),
     (''email'', email u), (''password'', JStr (password u)), (''username'', username u),
     (''profileImage'', profileImage u), (''roles'', roles u)] @ others u)"

text \<open>Modelled from the spec: \<open>matchPassword\<close> of the user model, which is not among the
  sources; section 4.1 has it delegate to the hashing primitive's comparison and never
  throw.\<close>

definition matchPassword :: "env \<Rightarrow> user \<Rightarrow> jsval \<Rightarrow> bool" where
  "matchPassword ev u pw = bcrypt_compare ev pw (password u)"

text \<open>Modelled from the spec: \<open>hasRole\<close> of the user model, which is not among the
  sources; section 4.4 has it a pure membership test on the account's roles.\<close>

definition hasRole :: "user \<Rightarrow> jsval \<Rightarrow> bool" where
  "hasRole u r = (r \<in> set (elements (roles u)))"

text \<open>Modelled from the spec: \<open>generateToken\<close>, which is not among the sources; section
  4.2 has it sign the account id and attach the token as an http-only, strict same-site
  cookie, secure outside development, with a fixed expiry of 30 days.\<close>

definition generateToken :: "env \<Rightarrow> string \<Rightarrow> string \<times> cookie" where
  "generateToken ev i =
     (let token = jwt_sign ev i
      in (token, \<lparr>cname = ''jwt'', cvalue = token, httpOnly = True,
                  expires = AfterDays 30, secure = (\<not> development ev),
                  sameSite = ''strict''\<rparr>))"

definition default_profile_image :: string where
  "default_profile_image = ''https://www.example.com/default-profile.jpg''"

text \<open>Modelled from the spec: \<open>User.createUser\<close>, which is not among the sources; section
  4.3 has it fail with DuplicateEmail when the email is present, apply the defaults
  (placeholder image, roles USER when none are given), hash the password and persist the
  account.  It resolves to the new document.\<close>

definition createUser ::
  "env \<Rightarrow> store \<Rightarrow> (string \<times> jsval) list \<Rightarrow> error + (user option \<times> store)" where
  "createUser ev st obj =
     (case findOne st (js_get obj ''email'') of
        Inl e \<Rightarrow> Inl e
      | Inr (Some existing) \<Rightarrow> Inl DuplicateEmail
      | Inr None \<Rightarrow>
          (let r = js_get obj ''roles'';
               u = \<lparr>uid = new_id ev (users st),
                    fullName = js_get obj ''fullName'',
                    email = js_get obj ''email'',
                    password = bcrypt_hash ev (js_get obj ''password''),
                    username = js_get obj ''username'',
                    profileImage =
                      js_or (js_get obj ''profileImage'') (JStr default_profile_image),
                    roles = (if r = JUndefined \<or> r = JArr []
                             then JArr [js_get (UserRole ev) ''USER''] else r),
                    others = []\<rparr>
           in Inr (Some u, st\<lparr>users := users st @ [u]\<rparr>)))"

text \<open>Modelled from the spec: \<open>followUserService\<close>, which is not among the sources;
  section 4.5 has it fail with SelfFollow when both ids are equal, with AlreadyFollowing
  when the edge exists, with NotFound when either account is absent, and otherwise create
  the edge and return a confirmation (here the edge).  Looking up the edge and the
  accounts needs the persistence layer.\<close>

definition followUserService ::
  "store \<Rightarrow> string \<Rightarrow> jsval \<Rightarrow> error + (jsval \<times> store)" where
  "followUserService st followerId followingId =
     (if JStr followerId = followingId then Inl SelfFollow
      else case outage st of
        Some e \<Rightarrow> Inl e
      | None \<Rightarrow>
          (case followingId of
             JStr b \<Rightarrow>
               (if (followerId, b) \<in> set (follows st) then Inl AlreadyFollowing
                else if find (\<lambda>u. uid u = followerId) (users st) = None
                        \<or> find (\<lambda>u. uid u = b) (users st) = None then Inl NotFound
                else Inr (JObj [(''followerId'', JStr followerId), (''followingId'', JStr b)],
                          st\<lparr>follows := follows st @ [(followerId, b)]\<rparr>))
           | _ \<Rightarrow> Inl NotFound))"

section \<open>The user controller\<close>

text \<open>
  Each handler takes the collaborators, the store and the parts of the request it reads
  (\<open>req.body\<close> as an object, \<open>req.user\<close> as a document, \<open>req.params.id\<close> as a
  string) and returns the store, the cookies set and the reply.  An awaited query that is
  rejected throws its error out of the handler, at the status the response has then.
\<close>

definition user_status :: "string \<Rightarrow> string \<Rightarrow> jsval" where
  "user_status i s = JObj [(''userId'', JStr i), (''status'', JStr s)]"

definition authUser :: "env \<Rightarrow> store \<Rightarrow> (string \<times> jsval) list \<Rightarrow> result" where
  "authUser ev st body =
     (let email' = js_get body ''email'';
          password' = js_get body ''password''
      in case findOne st email' of
        Inl e \<Rightarrow> \<lparr>db = st, cookies = [], reply = Thrown 200 e\<rparr>
      | Inr (Some user) \<Rightarrow>
          (if matchPassword ev user password' then
             (let (token, c) = generateToken ev (uid user)
              in case io_emit ev ''userStatus'' (user_status (uid user) ''active'') of
                Some e \<Rightarrow> \<lparr>db = st, cookies = [c], reply = Thrown 200 e\<rparr>
              | None \<Rightarrow>
                  \<lparr>db = st, cookies = [c],
                   reply = Json 200 (JObj [(''_id'', JStr (uid user)),
                     (''fullName'', fullName user),
                     (''email'', email user),
                     (''roles'', roles user),
                     (''isAdmin'', JBool (hasRole user (js_get (UserRole ev) ''ADMIN''))),
                     (''profileImage'', profileImage user),
                     (''token'', JStr token)])\<rparr>)
           else \<lparr>db = st, cookies = [],
                  reply = Thrown 401 (Error ''Invalid email or password'')\<rparr>)
      | Inr None \<Rightarrow> \<lparr>db = st, cookies = [],
                  reply = Thrown 401 (Error ''Invalid email or password'')\<rparr>)"

text \<open>\<open>roles && roles.length > 0 ? roles : [UserRole.USER]\<close>\<close>

definition assignedRoles :: "env \<Rightarrow> jsval \<Rightarrow> jsval" where
  "assignedRoles ev roles' =
     (if truthy roles' \<and> length_gt_zero (string_gt_zero ev) roles' then roles'
      else JArr [js_get (UserRole ev) ''USER''])"

definition registerUser :: "env \<Rightarrow> store \<Rightarrow> (string \<times> jsval) list \<Rightarrow> result" where
  "registerUser ev st body =
     (let fullName' = js_get body ''fullName'';
          email' = js_get body ''email'';
          password' = js_get body ''password'';
          profileImage' = js_get body ''profileImage'';
          username' = js_get body ''username'';
          roles' = js_get body ''roles''
      in case findOne st email' of
        Inl e \<Rightarrow> \<lparr>db = st, cookies = [], reply = Thrown 200 e\<rparr>
      | Inr (Some userExists) \<Rightarrow>
          \<lparr>db = st, cookies = [], reply = Thrown 400 (Error ''User already exists'')\<rparr>
      | Inr None \<Rightarrow>
          (case createUser ev st
                  [(''fullName'', fullName'),
                   (''email'', email'),
                   (''password'', password'),
                   (''profileImage'', js_or profileImage' (JStr default_profile_image)),
                   (''username'', js_or username' JNull),
                   (''roles'', assignedRoles ev roles')] of
             Inl e \<Rightarrow> \<lparr>db = st, cookies = [], reply = Thrown 200 e\<rparr>
           | Inr (Some user, st') \<Rightarrow>
               (let (token, c) = generateToken ev (uid user)
                in \<lparr>db = st', cookies = [c],
                    reply = Json 201 (JObj [(''_id'', JStr (uid user)),
                      (''fullName'', fullName user),
                      (''email'', email user),
                      (''isAdmin'', JBool (hasRole user (js_get (UserRole ev) ''ADMIN''))),
                      (''profileImage'', profileImage user),
                      (''username'', username user),
                      (''roles'', roles user),
                      (''token'', JStr token)])\<rparr>)
           | Inr (None, st') \<Rightarrow>
               \<lparr>db = st', cookies = [], reply = Thrown 400 (Error ''Invalid user data'')\<rparr>))"

definition logoutUser :: "env \<Rightarrow> store \<Rightarrow> user \<Rightarrow> result" where
  "logoutUser ev st req_user =
     (let c = \<lparr>cname = ''jwt'', cvalue = [], httpOnly = True, expires = Epoch,
               secure = (\<not> development ev), sameSite = ''strict''\<rparr>
      in case io_emit ev ''userStatus'' (user_status (uid req_user) ''inactive'') of
        Some e \<Rightarrow> \<lparr>db = st, cookies = [c], reply = Thrown 200 e\<rparr>
      | None \<Rightarrow>
          \<lparr>db = st, cookies = [c],
           reply = Json 200 (JObj [(''message'', JStr ''Logged out successfully'')])\<rparr>)"

definition followUser :: "store \<Rightarrow> user \<Rightarrow> (string \<times> jsval) list \<Rightarrow> result" where
  "followUser st req_user body =
     (let followingId = js_get body ''followingId'';
          followerId = uid req_user
      in case followUserService st followerId followingId of
        Inl e \<Rightarrow> \<lparr>db = st, cookies = [], reply = Thrown 200 e\<rparr>
      | Inr (res, st') \<Rightarrow> \<lparr>db = st', cookies = [], reply = Json 200 res\<rparr>)"

definition getUserProfile :: "store \<Rightarrow> user \<Rightarrow> result" where
  "getUserProfile st req_user =
     \<lparr>db = st, cookies = [], reply = Json 200 (user_json req_user)\<rparr>"

definition updateUserProfile :: "store \<Rightarrow> user \<Rightarrow> (string \<times> jsval) list \<Rightarrow> result" where
  "updateUserProfile st req_user body =
     (case findById st (uid req_user) of
        Inl e \<Rightarrow> \<lparr>db = st, cookies = [], reply = Thrown 200 e\<rparr>
      | Inr (Some user) \<Rightarrow>
          (let updatedUser = user
                 \<lparr>fullName := js_or (js_get body ''fullName'') (fullName user),
                  email := js_or (js_get body ''email'') (email user),
                  username := js_or (js_get body ''username'') (username user)\<rparr>
           in case save st updatedUser of
                Inl e \<Rightarrow> \<lparr>db = st, cookies = [], reply = Thrown 200 e\<rparr>
              | Inr st' \<Rightarrow>
                  \<lparr>db = st', cookies = [],
                   reply = Json 200 (JObj [(''_id'', JStr (uid updatedUser)),
                     (''fullName'', fullName updatedUser),
                     (''email'', email updatedUser),
                     (''username'', username updatedUser),
                     (''profileImage'', profileImage updatedUser)])\<rparr>)
      | Inr None \<Rightarrow>
          \<lparr>db = st, cookies = [], reply = Thrown 404 (Error ''User not found'')\<rparr>)"

definition getUsers :: "store \<Rightarrow> result" where
  "getUsers st =
     (case find_all st of
        Inl e \<Rightarrow> \<lparr>db = st, cookies = [], reply = Thrown 200 e\<rparr>
      | Inr users' \<Rightarrow>
          \<lparr>db = st, cookies = [], reply = Json 200 (JArr (map user_json users'))\<rparr>)"

definition getUserById :: "store \<Rightarrow> string \<Rightarrow> result" where
  "getUserById st i =
     (case findById st i of
        Inl e \<Rightarrow> \<lparr>db = st, cookies = [], reply = Thrown 200 e\<rparr>
      | Inr (Some user) \<Rightarrow> \<lparr>db = st, cookies = [], reply = Json 200 (user_json user)\<rparr>
      | Inr None \<Rightarrow>
          \<lparr>db = st, cookies = [], reply = Thrown 404 (Error ''User not found'')\<rparr>)"

text \<open>The roles named in the request that are outside \<open>Object.values(UserRole)\<close>.\<close>

definition invalidRoles :: "env \<Rightarrow> jsval \<Rightarrow> jsval list" where
  "invalidRoles ev r =
     (let validRoles = map snd (UserRole ev)
      in filter (\<lambda>role. \<not> js_includes validRoles role) (elements r))"

text \<open>The tail of \<open>updateUser\<close>: save the document and answer with the saved one.\<close>

definition save_and_send :: "store \<Rightarrow> user \<Rightarrow> result" where
  "save_and_send st updatedUser =
     (case save st updatedUser of
        Inl e \<Rightarrow> \<lparr>db = st, cookies = [], reply = Thrown 200 e\<rparr>
      | Inr st' \<Rightarrow>
          \<lparr>db = st', cookies = [],
           reply = Json 200 (JObj [(''_id'', JStr (uid updatedUser)),
             (''fullName'', fullName updatedUser),
             (''email'', email updatedUser),
             (''roles'', roles updatedUser),
             (''username'', username updatedUser),
             (''profileImage'', profileImage updatedUser)])\<rparr>)"

definition updateUser :: "env \<Rightarrow> store \<Rightarrow> string \<Rightarrow> (string \<times> jsval) list \<Rightarrow> result" where
  "updateUser ev st i body =
     (case findById st i of
        Inl e \<Rightarrow> \<lparr>db = st, cookies = [], reply = Thrown 200 e\<rparr>
      | Inr (Some user) \<Rightarrow>
          (let user1 = user
                 \<lparr>fullName := defined_or (js_get body ''fullName'') (fullName user),
                  email := defined_or (js_get body ''email'') (email user),
                  username := defined_or (js_get body ''username'') (username user)\<rparr>
           in if truthy (js_get body ''roles'') \<and> isArray (js_get body ''roles'') then
                (if 0 < length (invalidRoles ev (js_get body ''roles'')) then
                   \<lparr>db = st, cookies = [],
                    reply = Thrown 400
                      (Error (''Invalid roles provided: ''
                              @ js_join '', '' (invalidRoles ev (js_get body ''roles''))))\<rparr>
                 else save_and_send st (user1\<lparr>roles := js_get body ''roles''\<rparr>))
              else save_and_send st user1)
      | Inr None \<Rightarrow>
          \<lparr>db = st, cookies = [], reply = Thrown 404 (Error ''User not found'')\<rparr>)"

definition deleteUser :: "store \<Rightarrow> string \<Rightarrow> result" where
  "deleteUser st i =
     (case findById st i of
        Inl e \<Rightarrow> \<lparr>db = st, cookies = [], reply = Thrown 200 e\<rparr>
      | Inr (Some user) \<Rightarrow>
          (case remove st user of
             Inl e \<Rightarrow> \<lparr>db = st, cookies = [], reply = Thrown 200 e\<rparr>
           | Inr st' \<Rightarrow>
               \<lparr>db = st', cookies = [],
                reply = Json 200 (JObj [(''message'', JStr ''User removed'')])\<rparr>)
      | Inr None \<Rightarrow>
          \<lparr>db = st, cookies = [], reply = Thrown 404 (Error ''User not found'')\<rparr>)"

section \<open>The database connection\<close>

text \<open>
  \<open>connectDB\<close> awaits the connection attempt, whose outcome is the argument: \<open>Inr host\<close>
  when it resolves, \<open>Inl message\<close> when it rejects (the URI, from the environment or
  the built-in fallback, only feeds the attempt).  A process either keeps running or has
  exited with a code; both carry the lines logged.
\<close>

datatype process = Running "string list" | Exited nat "string list"

definition connectDB :: "string + string \<Rightarrow> process" where
  "connectDB conn =
     (case conn of
        Inr host \<Rightarrow> Running [''MongoDB COnnected....'' @ host]
      | Inl message \<Rightarrow> Exited 1 [''Error: '' @ message])"

section \<open>A concrete deployment\<close>

text \<open>One environment, one account and one store on which the handlers are run.  The
  runs never convert a string to a number; the environment answers for plain decimal
  numerals only.\<close>

definition demo_env :: env where
  "demo_env =
     \<lparr>UserRole = [(''USER'', JStr ''USER''), (''ADMIN'', JStr ''ADMIN'')],
      bcrypt_hash = (\<lambda>v. CHR ''#'' # js_toString v),
      bcrypt_compare = (\<lambda>v h. h = CHR ''#'' # js_toString v),
      jwt_sign = (\<lambda>i. ''jwt:'' @ i),
      io_emit = (\<lambda>name payload. None),
      development = True,
      new_id = (\<lambda>us. replicate (Suc (length us)) CHR ''u''),
      string_gt_zero =
        (\<lambda>s. list_all (\<lambda>c. c \<in> set ''0123456789'') s \<and> list_ex (\<lambda>c. c \<noteq> CHR ''0'') s)\<rparr>"

text \<open>The same environment with a socket server whose \<open>emit\<close> throws.\<close>

definition demo_env_down :: env where
  "demo_env_down = demo_env\<lparr>io_emit := (\<lambda>name payload. Some (Error ''io unavailable''))\<rparr>"

definition alice :: user where
  "alice =
     \<lparr>uid = ''u'', fullName = JStr ''A'', email = JStr ''a@x.com'', password = ''#p1'',
      username = JNull, profileImage = JStr default_profile_image,
      roles = JArr [JStr ''USER''], others = [(''isBanned'', JBool False)]\<rparr>"

definition demo_store :: store where
  "demo_store = \<lparr>users = [alice], follows = [], outage = None\<rparr>"

text \<open>The same store while the persistence layer cannot be reached.\<close>

definition demo_store_down :: store where
  "demo_store_down = demo_store\<lparr>outage := Some (Error ''storage unavailable'')\<rparr>"

section \<open>Facts about the model\<close>

lemma js_get_Nil: "js_get [] k = JUndefined"
  by (simp add: js_get_def)

lemma js_get_Cons: "js_get ((k', v) # kvs) k = (if k' = k then v else js_get kvs k)"
  by (simp add: js_get_def)

lemma query_Inr: "query st a = Inr b \<longleftrightarrow> outage st = None \<and> b = a"
  by (auto simp: query_def split: option.splits)

lemma query_reachable: "outage st = None \<Longrightarrow> query st a = Inr a"
  by (simp add: query_def)

lemma query_outage: "outage st = Some e \<Longrightarrow> query st a = Inl e"
  by (simp add: query_def)

lemma findById_reachable:
  "findById st i = Inr x \<Longrightarrow> outage st = None"
  by (simp add: findById_def query_Inr)

lemma findOne_reachable:
  "findOne st e = Inr x \<Longrightarrow> outage st = None"
  by (simp add: findOne_def query_Inr)

lemma findById_uid:
  assumes "findById st i = Inr (Some u)"
  shows "uid u = i"
proof -
  from assms have "find (\<lambda>v. uid v = i) (users st) = Some u"
    by (simp add: findById_def query_def split: option.splits)
  then show ?thesis by (auto simp: find_Some_iff)
qed

lemma find_replace_doc:
  "find (\<lambda>v. uid v = j) (replace_doc u vs) =
     (if j = uid u then (case find (\<lambda>v. uid v = uid u) vs of None \<Rightarrow> None | Some w \<Rightarrow> Some u)
      else find (\<lambda>v. uid v = j) vs)"
  by (induction vs) auto

text \<open>Saving a document that was found: the write goes through, the document is what
  its id now finds, and every other id finds what it found before.\<close>

lemma save_found:
  assumes "findById st (uid u) = Inr (Some w)"
  shows "\<exists>st'. save st u = Inr st'
           \<and> (\<forall>j. findById st' j = (if j = uid u then Inr (Some u) else findById st j))
           \<and> follows st' = follows st \<and> outage st' = outage st"
proof -
  from assms have up: "outage st = None" by (rule findById_reachable)
  from assms up have f: "find (\<lambda>v. uid v = uid u) (users st) = Some w"
    by (simp add: findById_def query_def)
  let ?st' = "st\<lparr>users := replace_doc u (users st)\<rparr>"
  from up have s: "save st u = Inr ?st'"
    by (simp add: save_def query_def)
  from up f have "\<forall>j. findById ?st' j = (if j = uid u then Inr (Some u) else findById st j)"
    by (simp add: findById_def query_def find_replace_doc)
  with s show ?thesis by simp
qed



section \<open>Authentication\<close>

text \<open>
  Claim C1, as the spec has it: for every (email, password) pair \<open>authUser\<close> succeeds
  if and only if an account with that email exists and the credential check against the
  stored hash is true, and in every other case it fails with the same InvalidCredentials
  error.

  The handler calls the socket server's \<open>emit\<close> between issuing the token and sending
  the response, and does not guard the call.  With an account that exists, a password
  that matches and an \<open>emit\<close> that throws, \<open>authUser\<close> does not succeed, and the error
  is the notifier's, not InvalidCredentials.
\<close>

theorem authUser_credentials_counterexample:
  "findOne demo_store
     (js_get [(''email'', JStr ''a@x.com''), (''password'', JStr ''p1'')] ''email'')
     = Inr (Some alice)
   \<and> matchPassword demo_env_down alice
        (js_get [(''email'', JStr ''a@x.com''), (''password'', JStr ''p1'')] ''password'')
   \<and> reply (authUser demo_env_down demo_store
        [(''email'', JStr ''a@x.com''), (''password'', JStr ''p1'')])
      = Thrown 200 (Error ''io unavailable'')"
  by (simp add: authUser_def findOne_def query_def matchPassword_def demo_store_def
      demo_env_down_def demo_env_def alice_def js_get_def generateToken_def Let_def)

text \<open>
  Claim C1, amended: \<open>authUser\<close> answers 200 exactly when an account with that email
  is found, the credential check is true and the presence notification returns; the
  payload is then the account's id, name, email, roles, admin flag and image together
  with the session token, and the \<open>jwt\<close> cookie carries that same token.  Whenever no
  account is found or the check is false it fails with status 401 and the message
  ``Invalid email or password'', the whole result being the same in both cases.  When the
  account is found, the check is true and the notification throws, the handler fails with
  the thrown error, the cookie with the token being set already.  A \<open>jwt\<close> cookie is
  set exactly when the account is found and the check is true, and the store is never
  changed.
\<close>

theorem authUser_outcome:
  "((\<exists>v. reply (authUser ev st body) = Json 200 v) \<longleftrightarrow>
      (\<exists>u. findOne st (js_get body ''email'') = Inr (Some u)
          \<and> matchPassword ev u (js_get body ''password'')
          \<and> io_emit ev ''userStatus'' (user_status (uid u) ''active'') = None))
   \<and> ((findOne st (js_get body ''email'') = Inr None
        \<or> (\<exists>u. findOne st (js_get body ''email'') = Inr (Some u)
               \<and> \<not> matchPassword ev u (js_get body ''password'')))
       \<longrightarrow> authUser ev st body =
             \<lparr>db = st, cookies = [], reply = Thrown 401 (Error ''Invalid email or password'')\<rparr>)
   \<and> (\<forall>u. findOne st (js_get body ''email'') = Inr (Some u)
          \<and> matchPassword ev u (js_get body ''password'')
          \<and> io_emit ev ''userStatus'' (user_status (uid u) ''active'') = None
       \<longrightarrow> authUser ev st body =
             \<lparr>db = st,
              cookies = [\<lparr>cname = ''jwt'', cvalue = jwt_sign ev (uid u), httpOnly = True,
                          expires = AfterDays 30, secure = (\<not> development ev),
                          sameSite = ''strict''\<rparr>],
              reply = Json 200 (JObj [(''_id'', JStr (uid u)),
                (''fullName'', fullName u),
                (''email'', email u),
                (''roles'', roles u),
                (''isAdmin'', JBool (hasRole u (js_get (UserRole ev) ''ADMIN''))),
                (''profileImage'', profileImage u),
                (''token'', JStr (jwt_sign ev (uid u)))])\<rparr>)
   \<and> (\<forall>u e. findOne st (js_get body ''email'') = Inr (Some u)
          \<and> matchPassword ev u (js_get body ''password'')
          \<and> io_emit ev ''userStatus'' (user_status (uid u) ''active'') = Some e
       \<longrightarrow> authUser ev st body =
             \<lparr>db = st,
              cookies = [\<lparr>cname = ''jwt'', cvalue = jwt_sign ev (uid u), httpOnly = True,
                          expires = AfterDays 30, secure = (\<not> development ev),
                          sameSite = ''strict''\<rparr>],
              reply = Thrown 200 e\<rparr>)
   \<and> ((\<exists>c. cookies (authUser ev st body) = [c] \<and> cname c = ''jwt'') \<longleftrightarrow>
      (\<exists>u. findOne st (js_get body ''email'') = Inr (Some u)
          \<and> matchPassword ev u (js_get body ''password'')))
   \<and> db (authUser ev st body) = st"
  by (auto simp: authUser_def generateToken_def Let_def
      split: option.splits prod.splits sum.splits)

theorem authUser_outcome_witness:
  "findOne demo_store (js_get [(''email'', JStr ''b@x.com''), (''password'', JStr ''p1'')] ''email'')
     = Inr None
   \<and> authUser demo_env demo_store [(''email'', JStr ''b@x.com''), (''password'', JStr ''p1'')]
     = \<lparr>db = demo_store, cookies = [],
        reply = Thrown 401 (Error ''Invalid email or password'')\<rparr>
   \<and> findOne demo_store
        (js_get [(''email'', JStr ''a@x.com''), (''password'', JStr ''wrong'')] ''email'')
     = Inr (Some alice)
   \<and> \<not> matchPassword demo_env alice
        (js_get [(''email'', JStr ''a@x.com''), (''password'', JStr ''wrong'')] ''password'')
   \<and> authUser demo_env demo_store [(''email'', JStr ''a@x.com''), (''password'', JStr ''wrong'')]
     = \<lparr>db = demo_store, cookies = [],
        reply = Thrown 401 (Error ''Invalid email or password'')\<rparr>
   \<and> findOne demo_store
        (js_get [(''email'', JStr ''a@x.com''), (''password'', JStr ''p1'')] ''email'')
     = Inr (Some alice)
   \<and> matchPassword demo_env alice
        (js_get [(''email'', JStr ''a@x.com''), (''password'', JStr ''p1'')] ''password'')
   \<and> io_emit demo_env ''userStatus'' (user_status (uid alice) ''active'') = None
   \<and> authUser demo_env demo_store [(''email'', JStr ''a@x.com''), (''password'', JStr ''p1'')]
     = \<lparr>db = demo_store,
        cookies = [\<lparr>cname = ''jwt'', cvalue = ''jwt:u'', httpOnly = True,
                    expires = AfterDays 30, secure = False, sameSite = ''strict''\<rparr>],
        reply = Json 200 (JObj [(''_id'', JStr ''u''),
          (''fullName'', JStr ''A''),
          (''email'', JStr ''a@x.com''),
          (''roles'', JArr [JStr ''USER'']),
          (''isAdmin'', JBool False),
          (''profileImage'', JStr default_profile_image),
          (''token'', JStr ''jwt:u'')])\<rparr>"
proof -
  let ?unknown = "[(''email'', JStr ''b@x.com''), (''password'', JStr ''p1'')]"
  let ?wrong = "[(''email'', JStr ''a@x.com''), (''password'', JStr ''wrong'')]"
  let ?right = "[(''email'', JStr ''a@x.com''), (''password'', JStr ''p1'')]"
  have n: "findOne demo_store (js_get ?unknown ''email'') = Inr None"
    by (simp add: findOne_def query_def demo_store_def alice_def js_get_def)
  have s: "findOne demo_store (js_get ?wrong ''email'') = Inr (Some alice)"
    by (simp add: findOne_def query_def demo_store_def alice_def js_get_def)
  have m: "\<not> matchPassword demo_env alice (js_get ?wrong ''password'')"
    by (simp add: matchPassword_def demo_env_def alice_def js_get_def)
  have s': "findOne demo_store (js_get ?right ''email'') = Inr (Some alice)"
    by (simp add: findOne_def query_def demo_store_def alice_def js_get_def)
  have m': "matchPassword demo_env alice (js_get ?right ''password'')"
    by (simp add: matchPassword_def demo_env_def alice_def js_get_def)
  have e: "io_emit demo_env ''userStatus'' (user_status (uid alice) ''active'') = None"
    by (simp add: demo_env_def)
  from n authUser_outcome [of demo_env demo_store ?unknown]
  have a: "authUser demo_env demo_store ?unknown
     = \<lparr>db = demo_store, cookies = [],
        reply = Thrown 401 (Error ''Invalid email or password'')\<rparr>"
    by blast
  from s m authUser_outcome [of demo_env demo_store ?wrong]
  have b: "authUser demo_env demo_store ?wrong
     = \<lparr>db = demo_store, cookies = [],
        reply = Thrown 401 (Error ''Invalid email or password'')\<rparr>"
    by blast
  from s' m' e authUser_outcome [of demo_env demo_store ?right]
  have "authUser demo_env demo_store ?right
     = \<lparr>db = demo_store,
        cookies = [\<lparr>cname = ''jwt'', cvalue = jwt_sign demo_env (uid alice), httpOnly = True,
                    expires = AfterDays 30, secure = (\<not> development demo_env),
                    sameSite = ''strict''\<rparr>],
        reply = Json 200 (JObj [(''_id'', JStr (uid alice)),
          (''fullName'', fullName alice),
          (''email'', email alice),
          (''roles'', roles alice),
          (''isAdmin'', JBool (hasRole alice (js_get (UserRole demo_env) ''ADMIN''))),
          (''profileImage'', profileImage alice),
          (''token'', JStr (jwt_sign demo_env (uid alice)))])\<rparr>"
    by blast
  then have c: "authUser demo_env demo_store ?right
     = \<lparr>db = demo_store,
        cookies = [\<lparr>cname = ''jwt'', cvalue = ''jwt:u'', httpOnly = True,
                    expires = AfterDays 30, secure = False, sameSite = ''strict''\<rparr>],
        reply = Json 200 (JObj [(''_id'', JStr ''u''),
          (''fullName'', JStr ''A''),
          (''email'', JStr ''a@x.com''),
          (''roles'', JArr [JStr ''USER'']),
          (''isAdmin'', JBool False),
          (''profileImage'', JStr default_profile_image),
          (''token'', JStr ''jwt:u'')])\<rparr>"
    by (simp add: demo_env_def alice_def hasRole_def elements_def js_get_def)
  from n a s m b s' m' e c show ?thesis by (intro conjI)
qed

section \<open>Registration\<close>

text \<open>
  Claim C7: a registration request whose email already belongs to a stored account fails
  with the duplicate-email error (status 400, ``User already exists''), and the store it
  leaves is the store it found: no account is created.
\<close>

theorem registerUser_duplicate_email:
  "findOne st (js_get body ''email'') = Inr (Some u) \<Longrightarrow>
   registerUser ev st body =
     \<lparr>db = st, cookies = [], reply = Thrown 400 (Error ''User already exists'')\<rparr>"
  by (simp add: registerUser_def Let_def)

theorem registerUser_duplicate_email_witness:
  "findOne demo_store
     (js_get [(''fullName'', JStr ''B''), (''email'', JStr ''a@x.com''), (''password'', JStr ''p2'')]
        ''email'') = Inr (Some alice)
   \<and> registerUser demo_env demo_store
       [(''fullName'', JStr ''B''), (''email'', JStr ''a@x.com''), (''password'', JStr ''p2'')]
     = \<lparr>db = demo_store, cookies = [], reply = Thrown 400 (Error ''User already exists'')\<rparr>"
proof -
  let ?b = "[(''fullName'', JStr ''B''), (''email'', JStr ''a@x.com''), (''password'', JStr ''p2'')]"
  have f: "findOne demo_store (js_get ?b ''email'') = Inr (Some alice)"
    by (simp add: findOne_def query_def demo_store_def alice_def js_get_def)
  from f registerUser_duplicate_email [OF f, of demo_env] show ?thesis
    by (intro conjI)
qed

lemma assignedRoles_default:
  "r = JUndefined \<or> r = JArr [] \<Longrightarrow> assignedRoles ev r = JArr [js_get (UserRole ev) ''USER'']"
  by (auto simp: assignedRoles_def length_gt_zero_def)

text \<open>
  Claim C4: when a registration request for a new email omits \<open>roles\<close> or gives the
  empty list, the roles the handler assigns are \<open>[UserRole.USER]\<close>, the account appended
  to the store has exactly those roles, and the reply is 201 with that role list and the
  session token, which is also the value of the \<open>jwt\<close> cookie.
\<close>

theorem registerUser_default_roles:
  assumes fresh: "findOne st (js_get body ''email'') = Inr None"
    and noroles: "js_get body ''roles'' = JUndefined \<or> js_get body ''roles'' = JArr []"
  shows "(\<exists>u c p. registerUser ev st body =
             \<lparr>db = st\<lparr>users := users st @ [u]\<rparr>, cookies = [c], reply = Json 201 (JObj p)\<rparr>
           \<and> roles u = JArr [js_get (UserRole ev) ''USER'']
           \<and> js_get p ''roles'' = JArr [js_get (UserRole ev) ''USER'']
           \<and> js_get p ''token'' = JStr (jwt_sign ev (uid u))
           \<and> cname c = ''jwt'' \<and> cvalue c = jwt_sign ev (uid u))
         \<and> assignedRoles ev (js_get body ''roles'') = JArr [js_get (UserRole ev) ''USER'']"
proof -
  from noroles
  have a: "assignedRoles ev (js_get body ''roles'') = JArr [js_get (UserRole ev) ''USER'']"
    by (rule assignedRoles_default)
  have "\<exists>u c p. registerUser ev st body =
             \<lparr>db = st\<lparr>users := users st @ [u]\<rparr>, cookies = [c], reply = Json 201 (JObj p)\<rparr>
           \<and> roles u = JArr [js_get (UserRole ev) ''USER'']
           \<and> js_get p ''roles'' = JArr [js_get (UserRole ev) ''USER'']
           \<and> js_get p ''token'' = JStr (jwt_sign ev (uid u))
           \<and> cname c = ''jwt'' \<and> cvalue c = jwt_sign ev (uid u)"
    unfolding registerUser_def createUser_def generateToken_def Let_def a
    using fresh by (auto simp: js_get_Nil js_get_Cons)
  with a show ?thesis by (intro conjI)
qed

theorem registerUser_default_roles_witness:
  "findOne \<lparr>users = [], follows = [], outage = None\<rparr>
      (js_get [(''fullName'', JStr ''A''), (''email'', JStr ''a@x.com''), (''password'', JStr ''p1'')]
         ''email'') = Inr None
   \<and> (\<exists>u c p. registerUser demo_env \<lparr>users = [], follows = [], outage = None\<rparr>
         [(''fullName'', JStr ''A''), (''email'', JStr ''a@x.com''), (''password'', JStr ''p1'')] =
             \<lparr>db = \<lparr>users = [u], follows = [], outage = None\<rparr>, cookies = [c],
              reply = Json 201 (JObj p)\<rparr>
           \<and> roles u = JArr [JStr ''USER'']
           \<and> js_get p ''roles'' = JArr [JStr ''USER'']
           \<and> js_get p ''token'' = JStr (jwt_sign demo_env (uid u)))"
proof -
  let ?b = "[(''fullName'', JStr ''A''), (''email'', JStr ''a@x.com''), (''password'', JStr ''p1'')]"
  let ?st = "\<lparr>users = [], follows = [], outage = None\<rparr>"
  have f: "findOne ?st (js_get ?b ''email'') = Inr None"
    by (simp add: findOne_def query_def)
  have n: "js_get ?b ''roles'' = JUndefined \<or> js_get ?b ''roles'' = JArr []"
    by (simp add: js_get_def)
  have r: "js_get (UserRole demo_env) ''USER'' = JStr ''USER''"
    by (simp add: js_get_def demo_env_def)
  from registerUser_default_roles [OF f n, of demo_env] f r show ?thesis
    by auto
qed

section \<open>Updates\<close>



lemma updateUserProfile_saved:
  assumes "findById st (uid req_user) = Inr (Some u)"
  shows "\<exists>st'. db (updateUserProfile st req_user body) = st'
           \<and> (\<forall>j. findById st' j =
                 (if j = uid req_user
                  then Inr (Some (u\<lparr>fullName := js_or (js_get body ''fullName'') (fullName u),
                                    email := js_or (js_get body ''email'') (email u),
                                    username := js_or (js_get body ''username'') (username u)\<rparr>))
                  else findById st j))
           \<and> follows st' = follows st"
proof -
  let ?p = "u\<lparr>fullName := js_or (js_get body ''fullName'') (fullName u),
              email := js_or (js_get body ''email'') (email u),
              username := js_or (js_get body ''username'') (username u)\<rparr>"
  from assms have i: "uid u = uid req_user" by (rule findById_uid)
  then have ip: "uid ?p = uid req_user" by simp
  with assms have "findById st (uid ?p) = Inr (Some u)" by simp
  from save_found [OF this] obtain st' where s: "save st ?p = Inr st'"
    and f: "\<forall>j. findById st' j = (if j = uid ?p then Inr (Some ?p) else findById st j)"
    and e: "follows st' = follows st"
    by blast
  from assms s have "db (updateUserProfile st req_user body) = st'"
    by (simp add: updateUserProfile_def Let_def)
  with f e ip show ?thesis by simp
qed

text \<open>
  Claim C8: \<open>updateUserProfile\<close> is a partial update.  For an account that exists,
  each of \<open>fullName\<close>, \<open>email\<close> and \<open>username\<close> that the request does not supply
  keeps its stored value, and the id, the password hash, the profile image, the roles and
  the paths the controller never names are those of the stored document; the other
  accounts and the follow edges are untouched.  For an id with no account the handler
  fails with status 404 and ``User not found'' and leaves the store as it was.
\<close>

theorem updateUserProfile_partial:
  "(findById st (uid req_user) = Inr None \<longrightarrow>
      updateUserProfile st req_user body =
        \<lparr>db = st, cookies = [], reply = Thrown 404 (Error ''User not found'')\<rparr>)
   \<and> (\<forall>u. findById st (uid req_user) = Inr (Some u) \<longrightarrow>
        (\<exists>u'. findById (db (updateUserProfile st req_user body)) (uid req_user) = Inr (Some u')
           \<and> (js_get body ''fullName'' = JUndefined \<longrightarrow> fullName u' = fullName u)
           \<and> (js_get body ''email'' = JUndefined \<longrightarrow> email u' = email u)
           \<and> (js_get body ''username'' = JUndefined \<longrightarrow> username u' = username u)
           \<and> uid u' = uid u
           \<and> password u' = password u
           \<and> profileImage u' = profileImage u
           \<and> roles u' = roles u
           \<and> others u' = others u)
        \<and> (\<forall>j. j \<noteq> uid req_user \<longrightarrow>
              findById (db (updateUserProfile st req_user body)) j = findById st j)
        \<and> follows (db (updateUserProfile st req_user body)) = follows st)"
proof (intro conjI allI impI)
  assume "findById st (uid req_user) = Inr None"
  then show "updateUserProfile st req_user body =
        \<lparr>db = st, cookies = [], reply = Thrown 404 (Error ''User not found'')\<rparr>"
    by (simp add: updateUserProfile_def)
next
  fix u assume f: "findById st (uid req_user) = Inr (Some u)"
  from updateUserProfile_saved [OF f, of body]
  show "\<exists>u'. findById (db (updateUserProfile st req_user body)) (uid req_user) = Inr (Some u')
           \<and> (js_get body ''fullName'' = JUndefined \<longrightarrow> fullName u' = fullName u)
           \<and> (js_get body ''email'' = JUndefined \<longrightarrow> email u' = email u)
           \<and> (js_get body ''username'' = JUndefined \<longrightarrow> username u' = username u)
           \<and> uid u' = uid u
           \<and> password u' = password u
           \<and> profileImage u' = profileImage u
           \<and> roles u' = roles u
           \<and> others u' = others u"
    by (simp add: js_or_def)
next
  fix u j assume f: "findById st (uid req_user) = Inr (Some u)" and j: "j \<noteq> uid req_user"
  from updateUserProfile_saved [OF f, of body] j
  show "findById (db (updateUserProfile st req_user body)) j = findById st j"
    by simp
next
  fix u assume f: "findById st (uid req_user) = Inr (Some u)"
  from updateUserProfile_saved [OF f, of body]
  show "follows (db (updateUserProfile st req_user body)) = follows st"
    by simp
qed

theorem updateUserProfile_partial_witness:
  "findById demo_store (uid alice) = Inr (Some alice)
   \<and> js_get [(''fullName'', JStr ''Alice'')] ''email'' = JUndefined
   \<and> (\<exists>u'. findById (db (updateUserProfile demo_store alice [(''fullName'', JStr ''Alice'')]))
              (uid alice) = Inr (Some u')
          \<and> email u' = JStr ''a@x.com'' \<and> password u' = ''#p1''
          \<and> roles u' = JArr [JStr ''USER''] \<and> others u' = [(''isBanned'', JBool False)])
   \<and> findById demo_store ''nobody'' = Inr None
   \<and> updateUserProfile demo_store (alice\<lparr>uid := ''nobody''\<rparr>) [(''fullName'', JStr ''Alice'')]
     = \<lparr>db = demo_store, cookies = [], reply = Thrown 404 (Error ''User not found'')\<rparr>"
proof -
  let ?b = "[(''fullName'', JStr ''Alice'')]"
  have f: "findById demo_store (uid alice) = Inr (Some alice)"
    by (simp add: findById_def query_def demo_store_def)
  have e: "js_get ?b ''email'' = JUndefined"
    by (simp add: js_get_def)
  have n: "findById demo_store (uid (alice\<lparr>uid := ''nobody''\<rparr>)) = Inr None"
    by (simp add: findById_def query_def demo_store_def alice_def)
  have v: "email alice = JStr ''a@x.com''" "password alice = ''#p1''"
    "roles alice = JArr [JStr ''USER'']" "others alice = [(''isBanned'', JBool False)]"
    by (simp_all add: alice_def)
  from updateUserProfile_partial [of demo_store alice ?b] f e v
  have found: "\<exists>u'. findById (db (updateUserProfile demo_store alice ?b)) (uid alice)
            = Inr (Some u')
          \<and> email u' = JStr ''a@x.com'' \<and> password u' = ''#p1''
          \<and> roles u' = JArr [JStr ''USER''] \<and> others u' = [(''isBanned'', JBool False)]"
    by auto
  from updateUserProfile_partial [of demo_store "alice\<lparr>uid := ''nobody''\<rparr>" ?b] n
  have absent: "updateUserProfile demo_store (alice\<lparr>uid := ''nobody''\<rparr>) ?b
     = \<lparr>db = demo_store, cookies = [], reply = Thrown 404 (Error ''User not found'')\<rparr>"
    by blast
  from n have n': "findById demo_store ''nobody'' = Inr None" by simp
  from f e found n' absent show ?thesis by (intro conjI)
qed

subsection \<open>Falsy values in the two updates\<close>









section \<open>Following\<close>

text \<open>
  Claim C9: for every account, asking to follow oneself fails with SelfFollow, and the
  store, with its follow edges, is left as it was.  \<open>followUser\<close> hands both ids to the
  follow service and forwards what the service throws.
\<close>

theorem followUser_self:
  "js_get body ''followingId'' = JStr (uid a) \<Longrightarrow>
   followUser st a body = \<lparr>db = st, cookies = [], reply = Thrown 200 SelfFollow\<rparr>"
  by (simp add: followUser_def followUserService_def Let_def)

theorem followUser_self_witness:
  "js_get [(''followingId'', JStr ''u'')] ''followingId'' = JStr (uid alice)
   \<and> followUser demo_store alice [(''followingId'', JStr ''u'')]
     = \<lparr>db = demo_store, cookies = [], reply = Thrown 200 SelfFollow\<rparr>
   \<and> follows (db (followUser demo_store alice [(''followingId'', JStr ''u'')])) = []"
proof -
  have h: "js_get [(''followingId'', JStr ''u'')] ''followingId'' = JStr (uid alice)"
    by (simp add: js_get_def alice_def)
  from followUser_self [OF h, of demo_store]
  have r: "followUser demo_store alice [(''followingId'', JStr ''u'')]
     = \<lparr>db = demo_store, cookies = [], reply = Thrown 200 SelfFollow\<rparr>" .
  then have e: "follows (db (followUser demo_store alice [(''followingId'', JStr ''u'')])) = []"
    by (simp add: demo_store_def)
  from h r e show ?thesis by (intro conjI)
qed

section \<open>The presence notification\<close>

text \<open>
  Claim C5, as the spec has it: a failure of the presence notification never makes
  \<open>authUser\<close> or \<open>logoutUser\<close> fail, their result being independent of the notifier.

  On the same store and for the same account, \<open>logoutUser\<close> answers 200 when \<open>emit\<close>
  returns and fails with the notifier's error when \<open>emit\<close> throws.
\<close>

theorem logoutUser_notifier_counterexample:
  "reply (logoutUser demo_env demo_store alice)
     = Json 200 (JObj [(''message'', JStr ''Logged out successfully'')])
   \<and> reply (logoutUser demo_env_down demo_store alice) = Thrown 200 (Error ''io unavailable'')"
  by (simp add: logoutUser_def demo_env_down_def demo_env_def)

text \<open>
  Claim C5, amended: in \<open>logoutUser\<close>, and in \<open>authUser\<close> once the credentials have
  been accepted, the presence notification is an unguarded call made before the response
  is sent.  When it returns, the handler answers 200; when it throws, the handler fails
  with the thrown error and sends no success response.  Either way \<open>logoutUser\<close> has
  cleared the \<open>jwt\<close> cookie and left the store as it was.
\<close>

theorem presence_notifier_propagates:
  "(io_emit ev ''userStatus'' (user_status (uid req_user) ''inactive'') = None \<longrightarrow>
      reply (logoutUser ev st req_user) =
        Json 200 (JObj [(''message'', JStr ''Logged out successfully'')]))
   \<and> (\<forall>e. io_emit ev ''userStatus'' (user_status (uid req_user) ''inactive'') = Some e \<longrightarrow>
          reply (logoutUser ev st req_user) = Thrown 200 e)
   \<and> (\<forall>u. findOne st (js_get body ''email'') = Inr (Some u)
          \<and> matchPassword ev u (js_get body ''password'') \<longrightarrow>
        (io_emit ev ''userStatus'' (user_status (uid u) ''active'') = None \<longrightarrow>
           (\<exists>v. reply (authUser ev st body) = Json 200 v))
        \<and> (\<forall>e. io_emit ev ''userStatus'' (user_status (uid u) ''active'') = Some e \<longrightarrow>
              reply (authUser ev st body) = Thrown 200 e))
   \<and> cookies (logoutUser ev st req_user) =
        [\<lparr>cname = ''jwt'', cvalue = [], httpOnly = True, expires = Epoch,
          secure = (\<not> development ev), sameSite = ''strict''\<rparr>]
   \<and> db (logoutUser ev st req_user) = st"
  by (auto simp: logoutUser_def authUser_def Let_def split: prod.splits option.splits)

theorem presence_notifier_propagates_witness:
  "io_emit demo_env ''userStatus'' (user_status (uid alice) ''inactive'') = None
   \<and> reply (logoutUser demo_env demo_store alice)
     = Json 200 (JObj [(''message'', JStr ''Logged out successfully'')])
   \<and> findOne demo_store
       (js_get [(''email'', JStr ''a@x.com''), (''password'', JStr ''p1'')] ''email'')
     = Inr (Some alice)
   \<and> matchPassword demo_env alice
       (js_get [(''email'', JStr ''a@x.com''), (''password'', JStr ''p1'')] ''password'')
   \<and> io_emit demo_env ''userStatus'' (user_status (uid alice) ''active'') = None
   \<and> (\<exists>v. reply (authUser demo_env demo_store
              [(''email'', JStr ''a@x.com''), (''password'', JStr ''p1'')]) = Json 200 v)"
proof -
  let ?b = "[(''email'', JStr ''a@x.com''), (''password'', JStr ''p1'')]"
  have h: "io_emit demo_env ''userStatus'' (user_status (uid alice) ''inactive'') = None"
    "io_emit demo_env ''userStatus'' (user_status (uid alice) ''active'') = None"
    by (simp_all add: demo_env_def)
  have f: "findOne demo_store (js_get ?b ''email'') = Inr (Some alice)"
    by (simp add: findOne_def query_def demo_store_def alice_def js_get_def)
  have m: "matchPassword demo_env alice (js_get ?b ''password'')"
    by (simp add: matchPassword_def demo_env_def alice_def js_get_def)
  note t = presence_notifier_propagates [of demo_env alice demo_store ?b]
  from t h(1) have out: "reply (logoutUser demo_env demo_store alice)
     = Json 200 (JObj [(''message'', JStr ''Logged out successfully'')])"
    by blast
  from t f m h(2) have inn: "\<exists>v. reply (authUser demo_env demo_store ?b) = Json 200 v"
    by blast
  from h(1) out f m h(2) inn show ?thesis by (intro conjI)
qed

section \<open>When the persistence layer cannot be reached\<close>

text \<open>
  Claim C6, as the spec has it: an unavailable persistence layer is fatal for the current
  request only, and no code path halts the process because storage could not be reached.

  \<open>connectDB\<close> catches the rejected connection attempt, logs its message and exits the
  process with code 1.
\<close>

theorem connectDB_exit_counterexample:
  "connectDB (Inl ''connection refused'') = Exited 1 [''Error: connection refused'']"
  by (simp add: connectDB_def)

text \<open>
  Claim C6, amended: while a request is handled, an unavailable persistence layer is fatal
  for that request only.  Each handler of the controller that queries the store
  (\<open>authUser\<close>, \<open>registerUser\<close>, \<open>updateUserProfile\<close>, \<open>getUsers\<close>,
  \<open>getUserById\<close>, \<open>updateUser\<close>, \<open>deleteUser\<close>) then fails with the storage error
  and does nothing else: the store is as it was, no cookie is set, and the outcome is a
  reply like any other, the process going on.  At start-up it is otherwise: when the
  connection attempt of \<open>connectDB\<close> fails, the message is logged and the whole process
  exits with code 1; the process exits there exactly when the attempt fails, and goes on,
  after logging the host, when it succeeds.
\<close>

theorem storage_failure_scope:
  "(\<forall>e. outage st = Some e \<longrightarrow>
      authUser ev st body = \<lparr>db = st, cookies = [], reply = Thrown 200 e\<rparr>
      \<and> registerUser ev st body = \<lparr>db = st, cookies = [], reply = Thrown 200 e\<rparr>
      \<and> updateUserProfile st req_user body = \<lparr>db = st, cookies = [], reply = Thrown 200 e\<rparr>
      \<and> getUsers st = \<lparr>db = st, cookies = [], reply = Thrown 200 e\<rparr>
      \<and> getUserById st i = \<lparr>db = st, cookies = [], reply = Thrown 200 e\<rparr>
      \<and> updateUser ev st i body = \<lparr>db = st, cookies = [], reply = Thrown 200 e\<rparr>
      \<and> deleteUser st i = \<lparr>db = st, cookies = [], reply = Thrown 200 e\<rparr>)
   \<and> ((\<exists>code log. connectDB conn = Exited code log) \<longleftrightarrow> (\<exists>message. conn = Inl message))
   \<and> (\<forall>message. conn = Inl message \<longrightarrow> connectDB conn = Exited 1 [''Error: '' @ message])
   \<and> (\<forall>host. conn = Inr host \<longrightarrow> connectDB conn = Running [''MongoDB COnnected....'' @ host])"
proof (intro conjI allI impI)
  fix e assume o: "outage st = Some e"
  then have q: "\<And>x. findOne st x = Inl e" "\<And>x. findById st x = Inl e" "find_all st = Inl e"
    by (simp_all add: findOne_def findById_def find_all_def query_def)
  show "authUser ev st body = \<lparr>db = st, cookies = [], reply = Thrown 200 e\<rparr>"
    by (simp add: authUser_def Let_def q)
  show "registerUser ev st body = \<lparr>db = st, cookies = [], reply = Thrown 200 e\<rparr>"
    by (simp add: registerUser_def Let_def q)
  show "updateUserProfile st req_user body = \<lparr>db = st, cookies = [], reply = Thrown 200 e\<rparr>"
    by (simp add: updateUserProfile_def q)
  show "getUsers st = \<lparr>db = st, cookies = [], reply = Thrown 200 e\<rparr>"
    by (simp add: getUsers_def q)
  show "getUserById st i = \<lparr>db = st, cookies = [], reply = Thrown 200 e\<rparr>"
    by (simp add: getUserById_def q)
  show "updateUser ev st i body = \<lparr>db = st, cookies = [], reply = Thrown 200 e\<rparr>"
    by (simp add: updateUser_def q)
  show "deleteUser st i = \<lparr>db = st, cookies = [], reply = Thrown 200 e\<rparr>"
    by (simp add: deleteUser_def q)
next
  show "(\<exists>code log. connectDB conn = Exited code log) \<longleftrightarrow> (\<exists>message. conn = Inl message)"
    by (cases conn) (simp_all add: connectDB_def)
next
  fix message assume "conn = Inl message"
  then show "connectDB conn = Exited 1 [''Error: '' @ message]"
    by (simp add: connectDB_def)
next
  fix host assume "conn = Inr host"
  then show "connectDB conn = Running [''MongoDB COnnected....'' @ host]"
    by (simp add: connectDB_def)
qed

theorem storage_failure_scope_witness:
  "outage demo_store_down = Some (Error ''storage unavailable'')
   \<and> authUser demo_env demo_store_down [(''email'', JStr ''a@x.com''), (''password'', JStr ''p1'')]
     = \<lparr>db = demo_store_down, cookies = [],
        reply = Thrown 200 (Error ''storage unavailable'')\<rparr>
   \<and> getUsers demo_store_down
     = \<lparr>db = demo_store_down, cookies = [],
        reply = Thrown 200 (Error ''storage unavailable'')\<rparr>
   \<and> updateUserProfile demo_store_down alice [(''fullName'', JStr ''Alice'')]
     = \<lparr>db = demo_store_down, cookies = [],
        reply = Thrown 200 (Error ''storage unavailable'')\<rparr>
   \<and> connectDB (Inr ''cluster0'') = Running [''MongoDB COnnected....cluster0'']"
proof -
  let ?login = "[(''email'', JStr ''a@x.com''), (''password'', JStr ''p1'')]"
  let ?edit = "[(''fullName'', JStr ''Alice'')]"
  have o: "outage demo_store_down = Some (Error ''storage unavailable'')"
    by (simp add: demo_store_down_def)
  from o storage_failure_scope [of demo_store_down demo_env ?login alice "[]" "Inr ''cluster0''"]
  have a: "authUser demo_env demo_store_down ?login
     = \<lparr>db = demo_store_down, cookies = [],
        reply = Thrown 200 (Error ''storage unavailable'')\<rparr>"
    and g: "getUsers demo_store_down
     = \<lparr>db = demo_store_down, cookies = [],
        reply = Thrown 200 (Error ''storage unavailable'')\<rparr>"
    by blast+
  from o storage_failure_scope [of demo_store_down demo_env ?edit alice "[]" "Inr ''cluster0''"]
  have p: "updateUserProfile demo_store_down alice ?edit
     = \<lparr>db = demo_store_down, cookies = [],
        reply = Thrown 200 (Error ''storage unavailable'')\<rparr>"
    by blast
  from storage_failure_scope [of demo_store_down demo_env ?edit alice "[]" "Inr ''cluster0''"]
  have c: "connectDB (Inr ''cluster0'') = Running [''MongoDB COnnected....cluster0'']"
    by simp
  from o a g p c show ?thesis by (intro conjI)
qed

section \<open>What the replies carry\<close>

text \<open>The handlers that build their payload field by field leave the hash out.\<close>

lemma authUser_omits_password:
  "reply (authUser ev st body) = Json n (JObj p) \<Longrightarrow> js_get p ''password'' = JUndefined"
  by (auto simp: authUser_def Let_def js_get_Nil js_get_Cons
      split: option.splits prod.splits if_splits sum.splits)

lemma registerUser_omits_password:
  assumes "reply (registerUser ev st body) = Json n (JObj p)"
  shows "js_get p ''password'' = JUndefined"
proof (cases "findOne st (js_get body ''email'')")
  case (Inl e)
  with assms show ?thesis by (simp add: registerUser_def Let_def)
next
  case (Inr found)
  show ?thesis
  proof (cases found)
    case (Some w)
    with Inr assms show ?thesis by (simp add: registerUser_def Let_def)
  next
    case None
    with Inr assms show ?thesis
      unfolding registerUser_def createUser_def generateToken_def Let_def
      by (auto simp: js_get_Nil js_get_Cons)
  qed
qed

lemma updateUserProfile_omits_password:
  "reply (updateUserProfile st req_user body) = Json n (JObj p) \<Longrightarrow>
   js_get p ''password'' = JUndefined"
  by (auto simp: updateUserProfile_def Let_def js_get_Nil js_get_Cons
      split: option.splits sum.splits)

lemma save_and_send_omits_password:
  "reply (save_and_send st u) = Json n (JObj p) \<Longrightarrow> js_get p ''password'' = JUndefined"
  by (auto simp: save_and_send_def js_get_Nil js_get_Cons split: sum.splits)

lemma updateUser_omits_password:
  "reply (updateUser ev st i body) = Json n (JObj p) \<Longrightarrow> js_get p ''password'' = JUndefined"
  by (auto simp: updateUser_def Let_def split: option.splits if_splits sum.splits
      dest: save_and_send_omits_password)

text \<open>
  Claim C2: no success payload contains the password hash.  \<open>getUsers\<close> hands the
  documents it read to \<open>res.json\<close> as they are, so on a store with one account the
  reply carries that account's \<open>password\<close> path, the stored hash.
\<close>

theorem getUsers_password_hash:
  "reply (getUsers demo_store) =
     Json 200 (JArr [JObj [(''_id'', JStr ''u''), (''fullName'', JStr ''A''),
       (''email'', JStr ''a@x.com''), (''password'', JStr ''#p1''), (''username'', JNull),
       (''profileImage'', JStr ''https://www.example.com/default-profile.jpg''),
       (''roles'', JArr [JStr ''USER'']), (''isBanned'', JBool False)]])"
  by (simp add: getUsers_def find_all_def query_def demo_store_def alice_def user_json_def
      default_profile_image_def)

end
